theory Spec2Isabelle
  imports Complex_Main
begin

section \<open>The span exporter for tests and its assertion helper\<close>

text \<open>
  A shallow embedding of \<^verbatim>\<open>observability_utils/tracing/asserting_exporter.py\<close>:
  the class \<^verbatim>\<open>JsonObjectSpanExporter\<close> (constructor, \<^verbatim>\<open>export\<close>,
  \<^verbatim>\<open>force_flush\<close>) and the context manager \<^verbatim>\<open>asserting_span_exporter\<close>.
  Every method takes the exporter object and returns its outcome together with the
  exporter object as the call leaves it; an exception is the \<open>Inl\<close> side of the outcome.
  The model is sequential: one thread calls the methods one after the other.
\<close>

subsection \<open>Exceptions\<close>

datatype error = IndexError | InvalidStateError | TimeoutError | AssertionError

subsection \<open>Spans\<close>

text \<open>
  The tracing library's \<^verbatim>\<open>ReadableSpan\<close>, as far as this module reads it: a name and
  a mapping from attribute keys to values. The module never looks at an attribute value,
  so their type is a parameter.
\<close>

record 'v ReadableSpan =
  name :: string
  attributes :: "string \<rightharpoonup> 'v"

datatype SpanExportResult = SUCCESS | FAILURE

subsection \<open>The future of the standard library\<close>

text \<open>
  \<^verbatim>\<open>concurrent.futures.Future\<close>, with the two states this module can bring about:
  created and not completed, or completed with a result. \<^verbatim>\<open>Future()\<close> creates a
  pending future, \<^verbatim>\<open>set_result\<close> completes it (and refuses a completed one),
  \<^verbatim>\<open>done()\<close> tells whether it is completed, and \<^verbatim>\<open>result(timeout)\<close> returns the
  result of a completed future at once; on a pending one it waits for the timeout, and
  since no other thread completes the future here, the wait ends with a timeout error.
\<close>

datatype 'a future = Pending | Finished 'a

definition Future :: "'a future" where
  "Future = Pending"

fun set_result :: "'a future \<Rightarrow> 'a \<Rightarrow> error + 'a future" where
  "set_result Pending v = Inr (Finished v)"
| "set_result (Finished w) v = Inl InvalidStateError"

fun done_future :: "'a future \<Rightarrow> bool" where
  "done_future Pending = False"
| "done_future (Finished v) = True"

fun result :: "'a future \<Rightarrow> real \<Rightarrow> error + 'a" where
  "result Pending timeout = Inl TimeoutError"
| "result (Finished v) timeout = Inr v"

subsection \<open>The exporter\<close>

record 'v JsonObjectSpanExporter =
  service_name :: "string option"
  top_span :: "'v ReadableSpan future option"

text \<open>
  The constructor takes \<^verbatim>\<open>service_name\<close>, \<^verbatim>\<open>out\<close> and \<^verbatim>\<open>formatter\<close>, stores the
  first and leaves the capture cell empty.
\<close>

definition exporter_init ::
  "string option \<Rightarrow> 'o option \<Rightarrow> 'f option \<Rightarrow> 'v JsonObjectSpanExporter" where
  "exporter_init service_name_arg out formatter =
     \<lparr>service_name = service_name_arg, top_span = None\<rparr>"

text \<open>\<^verbatim>\<open>spans[-1]\<close>: the last element, an index error on an empty sequence.\<close>

definition last_item :: "'a list \<Rightarrow> error + 'a" where
  "last_item xs = (if xs = [] then Inl IndexError else Inr (last xs))"

text \<open>
  \<^verbatim>\<open>export\<close>. When the cell is empty or its future is done, the method first stores a
  new pending future in \<^verbatim>\<open>top_span\<close>, then evaluates \<^verbatim>\<open>spans[-1]\<close> and completes the
  stored future with it. An exception raised on the way leaves the exporter as the
  statements before it made it.
\<close>

definition export ::
  "'v JsonObjectSpanExporter \<Rightarrow> 'v ReadableSpan list
     \<Rightarrow> (error + SpanExportResult) \<times> 'v JsonObjectSpanExporter" where
  "export self spans =
     (if (case top_span self of None \<Rightarrow> True | Some f \<Rightarrow> done_future f) then
        (let self1 = self\<lparr>top_span := Some Future\<rparr> in
         case last_item spans of
           Inl e \<Rightarrow> (Inl e, self1)
         | Inr s \<Rightarrow>
             (case set_result Future s of
                Inl e \<Rightarrow> (Inl e, self1)
              | Inr f \<Rightarrow> (Inr SUCCESS, self1\<lparr>top_span := Some f\<rparr>)))
      else (Inr SUCCESS, self))"

definition force_flush ::
  "'v JsonObjectSpanExporter \<Rightarrow> int \<Rightarrow> (error + bool) \<times> 'v JsonObjectSpanExporter" where
  "force_flush self timeout_millis = (Inr True, self)"

subsection \<open>The assertion helper\<close>

text \<open>
  The loop \<^verbatim>\<open>for param in span_args: assert param in span.attributes\<close>: the first key
  that the span's attributes do not have ends it with an assertion error.
\<close>

fun assert_span_args :: "'v ReadableSpan \<Rightarrow> string list \<Rightarrow> error + unit" where
  "assert_span_args sp [] = Inr ()"
| "assert_span_args sp (param # rest) =
     (if attributes sp param \<noteq> None then assert_span_args sp rest
      else Inl AssertionError)"

text \<open>
  \<^verbatim>\<open>asserting_span_exporter\<close> does nothing before its \<^verbatim>\<open>yield\<close>; the function below is
  the code after the \<^verbatim>\<open>yield\<close>, run on the exporter as the body of the \<^verbatim>\<open>with\<close>
  block left it when that body returned normally.
\<close>

definition asserting_span_exporter ::
  "'v JsonObjectSpanExporter \<Rightarrow> string \<Rightarrow> string list
     \<Rightarrow> (error + unit) \<times> 'v JsonObjectSpanExporter" where
  "asserting_span_exporter exporter func_name span_args =
     (case top_span exporter of
        None \<Rightarrow> (Inr (), exporter)
      | Some f \<Rightarrow>
          (case result f 5.0 of
             Inl e \<Rightarrow> (Inl e, exporter)
           | Inr sp \<Rightarrow>
               (if name sp = func_name then (assert_span_args sp span_args, exporter)
                else (Inl AssertionError, exporter))))"

subsection \<open>Sequences of calls\<close>

text \<open>
  A test drives one exporter through a sequence of calls. \<open>run\<close> performs them in order,
  keeps the outcome of each (a caught exception does not end the sequence) and returns
  the exporter as the last call leaves it.
\<close>

datatype 'v call =
    Export "'v ReadableSpan list"
  | ForceFlush int
  | AssertSpan string "string list"

datatype outcome =
    Exported "error + SpanExportResult"
  | Flushed "error + bool"
  | Asserted "error + unit"

fun step :: "'v JsonObjectSpanExporter \<Rightarrow> 'v call \<Rightarrow> outcome \<times> 'v JsonObjectSpanExporter" where
  "step e (Export spans) = (case export e spans of (r, e') \<Rightarrow> (Exported r, e'))"
| "step e (ForceFlush t) = (case force_flush e t of (r, e') \<Rightarrow> (Flushed r, e'))"
| "step e (AssertSpan func_name span_args) =
     (case asserting_span_exporter e func_name span_args of (r, e') \<Rightarrow> (Asserted r, e'))"

fun run :: "'v JsonObjectSpanExporter \<Rightarrow> 'v call list \<Rightarrow> outcome list \<times> 'v JsonObjectSpanExporter" where
  "run e [] = ([], e)"
| "run e (c # cs) =
     (case step e c of (r, e') \<Rightarrow> (case run e' cs of (rs, e'') \<Rightarrow> (r # rs, e'')))"

text \<open>The cell is empty, or its future is completed.\<close>

definition cell_completed :: "'v JsonObjectSpanExporter \<Rightarrow> bool" where
  "cell_completed e = (case top_span e of None \<Rightarrow> True | Some f \<Rightarrow> done_future f)"

fun nonempty_export :: "'v call \<Rightarrow> bool" where
  "nonempty_export (Export spans) = (spans \<noteq> [])"
| "nonempty_export (ForceFlush t) = True"
| "nonempty_export (AssertSpan func_name span_args) = True"

section \<open>Properties\<close>

subsection \<open>What each operation does, case by case\<close>

lemma export_fresh:
  "cell_completed self \<Longrightarrow> spans \<noteq> [] \<Longrightarrow>
     export self spans = (Inr SUCCESS, self\<lparr>top_span := Some (Finished (last spans))\<rparr>)"
  by (simp add: export_def cell_completed_def last_item_def Future_def)

lemma export_pending:
  "top_span self = Some Pending \<Longrightarrow> export self spans = (Inr SUCCESS, self)"
  by (simp add: export_def)

lemma export_empty:
  "cell_completed self \<Longrightarrow>
     export self [] = (Inl IndexError, self\<lparr>top_span := Some Pending\<rparr>)"
  by (simp add: export_def cell_completed_def last_item_def Future_def)

lemma asserting_state: "snd (asserting_span_exporter e func_name span_args) = e"
  by (simp add: asserting_span_exporter_def split: option.splits sum.splits)

lemma asserting_finished:
  "top_span e = Some (Finished s) \<Longrightarrow>
     asserting_span_exporter e func_name span_args =
       (if name s = func_name then assert_span_args s span_args else Inl AssertionError, e)"
  by (simp add: asserting_span_exporter_def)

lemma asserting_pending:
  "top_span e = Some Pending \<Longrightarrow>
     asserting_span_exporter e func_name span_args = (Inl TimeoutError, e)"
  by (simp add: asserting_span_exporter_def)

lemma assert_span_args_iff:
  "(assert_span_args sp args = Inl AssertionError) = (\<exists>k\<in>set args. attributes sp k = None)"
  by (induction args) auto

lemma assert_span_args_cases:
  "assert_span_args sp args =
     (if \<exists>k\<in>set args. attributes sp k = None then Inl AssertionError else Inr ())"
  by (induction args) auto

lemma assert_span_args_dom:
  "dom (attributes s') = dom (attributes s) \<Longrightarrow>
     assert_span_args s' span_args = assert_span_args s span_args"
proof -
  assume "dom (attributes s') = dom (attributes s)"
  then have "(attributes s' k = None) = (attributes s k = None)" for k
    by (metis domIff)
  then show ?thesis
    by (simp add: assert_span_args_cases)
qed

subsection \<open>Two exports in a row\<close>

text \<open>
  C1, as the code has it. \<^verbatim>\<open>export\<close> tests \<^verbatim>\<open>done()\<close>, which tells that the stored future
  is completed, not that somebody has read it, and a future stored by a successful export
  is completed at once. So for two consecutive exports of non-empty batches, on an
  exporter whose cell is empty or completed, the second call overwrites the cell although
  nothing has read the first result: afterwards \<open>top_span\<close> holds the completed result
  equal to the last span of the second batch.
\<close>

theorem export_twice_overwrites:
  "cell_completed e \<Longrightarrow> spans1 \<noteq> [] \<Longrightarrow> spans2 \<noteq> [] \<Longrightarrow>
     top_span (snd (export (snd (export e spans1)) spans2)) = Some (Finished (last spans2))"
  by (simp add: export_fresh cell_completed_def)

theorem export_twice_overwrites_witness:
  "cell_completed (exporter_init (Some ''Test'') (None :: unit option) (None :: unit option)
      :: int JsonObjectSpanExporter)
   \<and> [\<lparr>name = ''first'', attributes = Map.empty\<rparr>] \<noteq> []
   \<and> [\<lparr>name = ''second'', attributes = Map.empty\<rparr>] \<noteq> []
   \<and> top_span (snd (export (snd (export
        (exporter_init (Some ''Test'') (None :: unit option) (None :: unit option)
           :: int JsonObjectSpanExporter)
        [\<lparr>name = ''first'', attributes = Map.empty\<rparr>]))
        [\<lparr>name = ''second'', attributes = Map.empty\<rparr>]))
      = Some (Finished \<lparr>name = ''second'', attributes = Map.empty\<rparr>)"
  using export_twice_overwrites [of
      "exporter_init (Some ''Test'') (None :: unit option) (None :: unit option)
         :: int JsonObjectSpanExporter"
      "[\<lparr>name = ''first'', attributes = Map.empty\<rparr>]"
      "[\<lparr>name = ''second'', attributes = Map.empty\<rparr>]"]
  by (simp add: cell_completed_def exporter_init_def)

text \<open>
  C1 as stated fails: a new exporter exports the span \<open>first\<close>, nothing reads it, and the
  export of the span \<open>second\<close> replaces it in the cell.
\<close>

theorem export_twice_keeps_first_counterexample:
  "top_span (snd (export (snd (export
        (exporter_init (Some ''Test'') (None :: unit option) (None :: unit option)
           :: int JsonObjectSpanExporter)
        [\<lparr>name = ''first'', attributes = Map.empty\<rparr>]))
        [\<lparr>name = ''second'', attributes = Map.empty\<rparr>]))
      \<noteq> Some (Finished \<lparr>name = ''first'', attributes = Map.empty\<rparr>)"
  by (simp add: export_def exporter_init_def last_item_def Future_def)

subsection \<open>Export into an empty cell\<close>

text \<open>
  C2. For every non-empty sequence of spans exported while \<open>top_span\<close> is \<open>None\<close>, the cell
  afterwards holds a completed future whose result is the last span of the sequence.
\<close>

theorem export_into_empty_cell:
  "top_span self = None \<Longrightarrow> spans \<noteq> [] \<Longrightarrow>
     top_span (snd (export self spans)) = Some (Finished (last spans))
     \<and> done_future (Finished (last spans))"
  by (simp add: export_fresh cell_completed_def)

theorem export_into_empty_cell_witness:
  "top_span (exporter_init (Some ''Test'') (None :: unit option) (None :: unit option)
      :: int JsonObjectSpanExporter) = None
   \<and> [\<lparr>name = ''setup'', attributes = Map.empty\<rparr>,
       \<lparr>name = ''do_work'', attributes = [''x'' \<mapsto> 1]\<rparr>] \<noteq> []
   \<and> top_span (snd (export
        (exporter_init (Some ''Test'') (None :: unit option) (None :: unit option)
           :: int JsonObjectSpanExporter)
        [\<lparr>name = ''setup'', attributes = Map.empty\<rparr>,
         \<lparr>name = ''do_work'', attributes = [''x'' \<mapsto> 1]\<rparr>]))
      = Some (Finished \<lparr>name = ''do_work'', attributes = [''x'' \<mapsto> 1]\<rparr>)"
  using export_into_empty_cell [of
      "exporter_init (Some ''Test'') (None :: unit option) (None :: unit option)
         :: int JsonObjectSpanExporter"
      "[\<lparr>name = ''setup'', attributes = Map.empty\<rparr>,
        \<lparr>name = ''do_work'', attributes = [''x'' \<mapsto> 1]\<rparr>]"]
  by (simp add: exporter_init_def)

subsection \<open>Export after the assertion helper\<close>

text \<open>
  C3. Once the assertion helper has read the stored result, whatever its verdict, the
  next export of a non-empty batch overwrites the cell: \<open>top_span\<close> then holds a completed
  result equal to the last span of the new batch.
\<close>

theorem export_after_assert_overwrites:
  "top_span e = Some (Finished s) \<Longrightarrow> spans \<noteq> [] \<Longrightarrow>
     top_span (snd (export (snd (asserting_span_exporter e func_name span_args)) spans))
       = Some (Finished (last spans))"
  by (simp add: asserting_state export_fresh cell_completed_def)

theorem export_after_assert_overwrites_witness:
  "top_span \<lparr>service_name = Some ''Test'',
      top_span = Some (Finished \<lparr>name = ''do_work'', attributes = [''x'' \<mapsto> (1::int)]\<rparr>)\<rparr>
     = Some (Finished \<lparr>name = ''do_work'', attributes = [''x'' \<mapsto> 1]\<rparr>)
   \<and> [\<lparr>name = ''next_work'', attributes = Map.empty\<rparr>] \<noteq> []
   \<and> top_span (snd (export (snd (asserting_span_exporter
         \<lparr>service_name = Some ''Test'',
          top_span = Some (Finished \<lparr>name = ''do_work'', attributes = [''x'' \<mapsto> (1::int)]\<rparr>)\<rparr>
         ''do_work'' [''x'']))
        [\<lparr>name = ''next_work'', attributes = Map.empty\<rparr>]))
      = Some (Finished \<lparr>name = ''next_work'', attributes = Map.empty\<rparr>)"
  using export_after_assert_overwrites [of
      "\<lparr>service_name = Some ''Test'',
        top_span = Some (Finished \<lparr>name = ''do_work'', attributes = [''x'' \<mapsto> (1::int)]\<rparr>)\<rparr>"
      "\<lparr>name = ''do_work'', attributes = [''x'' \<mapsto> 1]\<rparr>"
      "[\<lparr>name = ''next_work'', attributes = Map.empty\<rparr>]" "''do_work''" "[''x'']"]
  by simp

subsection \<open>The verdict of the assertion helper\<close>

text \<open>
  C4. When the cell holds a captured span, the assertion helper raises an assertion error
  if and only if the span's name differs from the expected function name or some expected
  attribute key is not among the span's attribute keys; otherwise it returns normally.
  Attribute values play no part: two captured spans with the same name and the same
  attribute keys get the same verdict, whatever their values and the type of these.
\<close>

theorem assert_fails_iff:
  "top_span e = Some (Finished s) \<Longrightarrow>
     ((fst (asserting_span_exporter e func_name span_args) = Inl AssertionError)
        = (name s \<noteq> func_name \<or> (\<exists>k\<in>set span_args. k \<notin> dom (attributes s))))
     \<and> (fst (asserting_span_exporter e func_name span_args) \<noteq> Inl AssertionError
          \<longrightarrow> fst (asserting_span_exporter e func_name span_args) = Inr ())
     \<and> (\<forall>e' s'. top_span e' = Some (Finished s') \<and> name s' = name s
            \<and> dom (attributes s') = dom (attributes s)
          \<longrightarrow> fst (asserting_span_exporter e' func_name span_args)
                = fst (asserting_span_exporter e func_name span_args))"
proof (intro conjI allI impI)
  assume fin: "top_span e = Some (Finished s)"
  show "(fst (asserting_span_exporter e func_name span_args) = Inl AssertionError)
          = (name s \<noteq> func_name \<or> (\<exists>k\<in>set span_args. k \<notin> dom (attributes s)))"
    using fin by (simp add: asserting_finished assert_span_args_iff domIff)
  show "fst (asserting_span_exporter e func_name span_args) = Inr ()"
    if "fst (asserting_span_exporter e func_name span_args) \<noteq> Inl AssertionError"
    using fin that by (simp add: asserting_finished assert_span_args_cases split: if_splits)
  show "fst (asserting_span_exporter e' func_name span_args)
          = fst (asserting_span_exporter e func_name span_args)"
    if "top_span e' = Some (Finished s') \<and> name s' = name s
          \<and> dom (attributes s') = dom (attributes s)"
    for e' :: "'b JsonObjectSpanExporter" and s'
  proof -
    from that have "assert_span_args s' span_args = assert_span_args s span_args"
      by (intro assert_span_args_dom) simp
    with fin that show ?thesis
      by (simp add: asserting_finished)
  qed
qed

theorem assert_fails_iff_witness:
  "top_span \<lparr>service_name = Some ''Test'',
      top_span = Some (Finished \<lparr>name = ''do_work'', attributes = [''y'' \<mapsto> (2::int)]\<rparr>)\<rparr>
     = Some (Finished \<lparr>name = ''do_work'', attributes = [''y'' \<mapsto> 2]\<rparr>)
   \<and> fst (asserting_span_exporter
        \<lparr>service_name = Some ''Test'',
         top_span = Some (Finished \<lparr>name = ''do_work'', attributes = [''y'' \<mapsto> (2::int)]\<rparr>)\<rparr>
        ''do_work'' [''x'']) = Inl AssertionError
   \<and> fst (asserting_span_exporter
        \<lparr>service_name = Some ''Test'',
         top_span = Some (Finished \<lparr>name = ''do_work'', attributes = [''y'' \<mapsto> (2::int)]\<rparr>)\<rparr>
        ''other_name'' []) = Inl AssertionError
   \<and> fst (asserting_span_exporter
        \<lparr>service_name = Some ''Test'',
         top_span = Some (Finished \<lparr>name = ''do_work'', attributes = [''y'' \<mapsto> (2::int)]\<rparr>)\<rparr>
        ''do_work'' [''y'']) = Inr ()
   \<and> fst (asserting_span_exporter
        \<lparr>service_name = None,
         top_span = Some (Finished \<lparr>name = ''do_work'', attributes = [''y'' \<mapsto> (7::int)]\<rparr>)\<rparr>
        ''do_work'' [''y''])
     = fst (asserting_span_exporter
        \<lparr>service_name = Some ''Test'',
         top_span = Some (Finished \<lparr>name = ''do_work'', attributes = [''y'' \<mapsto> (2::int)]\<rparr>)\<rparr>
        ''do_work'' [''y''])"
proof -
  let ?s = "\<lparr>name = ''do_work'', attributes = [''y'' \<mapsto> (2::int)]\<rparr>"
  let ?e = "\<lparr>service_name = Some ''Test'', top_span = Some (Finished ?s)\<rparr>"
  have h: "top_span ?e = Some (Finished ?s)"
    by simp
  have a: "fst (asserting_span_exporter ?e ''do_work'' [''x'']) = Inl AssertionError"
    using assert_fails_iff [OF h, of "''do_work''" "[''x'']", THEN conjunct1] by simp
  have b: "fst (asserting_span_exporter ?e ''other_name'' []) = Inl AssertionError"
    using assert_fails_iff [OF h, of "''other_name''" "[]", THEN conjunct1] by simp
  have "fst (asserting_span_exporter ?e ''do_work'' [''y'']) \<noteq> Inl AssertionError"
    using assert_fails_iff [OF h, of "''do_work''" "[''y'']", THEN conjunct1] by simp
  then have c: "fst (asserting_span_exporter ?e ''do_work'' [''y'']) = Inr ()"
    using assert_fails_iff [OF h, of "''do_work''" "[''y'']", THEN conjunct2, THEN conjunct1]
    by blast
  let ?s' = "\<lparr>name = ''do_work'', attributes = [''y'' \<mapsto> (7::int)]\<rparr>"
  let ?e' = "\<lparr>service_name = None, top_span = Some (Finished ?s')\<rparr>"
  have "top_span ?e' = Some (Finished ?s') \<and> name ?s' = name ?s
          \<and> dom (attributes ?s') = dom (attributes ?s)"
    by simp
  then have d: "fst (asserting_span_exporter ?e' ''do_work'' [''y''])
                  = fst (asserting_span_exporter ?e ''do_work'' [''y''])"
    using assert_fails_iff [OF h, of "''do_work''" "[''y'']", THEN conjunct2, THEN conjunct2]
    by blast
  show ?thesis
    by (intro conjI h a b c d)
qed

text \<open>
  C5. Whatever the expected name and the expected attribute keys, when no span was
  captured (\<open>top_span\<close> is \<open>None\<close>) the helper asserts nothing, raises nothing and leaves
  the exporter as it is.
\<close>

theorem assert_without_span_passes:
  "top_span e = None \<Longrightarrow> asserting_span_exporter e func_name span_args = (Inr (), e)"
  by (simp add: asserting_span_exporter_def)

theorem assert_without_span_passes_witness:
  "top_span (exporter_init (Some ''Test'') (None :: unit option) (None :: unit option) :: int JsonObjectSpanExporter) = None
   \<and> asserting_span_exporter
        (exporter_init (Some ''Test'') (None :: unit option) (None :: unit option) :: int JsonObjectSpanExporter)
        ''do_work'' [''x'']
      = (Inr (), exporter_init (Some ''Test'') (None :: unit option) (None :: unit option))"
  using assert_without_span_passes [of
      "exporter_init (Some ''Test'') (None :: unit option) (None :: unit option) :: int JsonObjectSpanExporter"
      "''do_work''" "[''x'']"]
  by (simp add: exporter_init_def)

subsection \<open>Export and flush report success\<close>

text \<open>
  C6. For every non-empty batch and every exporter state, \<^verbatim>\<open>export\<close> raises nothing and
  returns \<open>SUCCESS\<close>; for every timeout and every exporter state, \<^verbatim>\<open>force_flush\<close> raises
  nothing and returns \<open>True\<close>.
\<close>

theorem export_and_flush_succeed:
  "(spans \<noteq> [] \<longrightarrow> fst (export e spans) = Inr SUCCESS)
   \<and> fst (force_flush e' timeout_millis) = Inr True"
  by (simp add: export_def force_flush_def last_item_def Future_def)


theorem export_and_flush_succeed_witness:
  "[\<lparr>name = ''do_work'', attributes = [''x'' \<mapsto> (1::int)]\<rparr>] \<noteq> []
   \<and> fst (export \<lparr>service_name = Some ''Test'', top_span = Some Pending\<rparr>
          [\<lparr>name = ''do_work'', attributes = [''x'' \<mapsto> (1::int)]\<rparr>]) = Inr SUCCESS
   \<and> fst (force_flush
          \<lparr>service_name = None, top_span = Some (Finished \<lparr>name = ''a'', attributes = [''x'' \<mapsto> (1::int)]\<rparr>)\<rparr>
          30000) = Inr True"
  using export_and_flush_succeed [of
      "[\<lparr>name = ''do_work'', attributes = [''x'' \<mapsto> (1::int)]\<rparr>]"
      "\<lparr>service_name = Some ''Test'', top_span = Some Pending\<rparr>"
      "\<lparr>service_name = None, top_span = Some (Finished \<lparr>name = ''a'', attributes = [''x'' \<mapsto> (1::int)]\<rparr>)\<rparr>"
      30000]
  by simp

subsection \<open>What export may change\<close>

text \<open>
  C7. \<^verbatim>\<open>export\<close> changes nothing of the exporter but the capture cell \<open>top_span\<close>; in
  particular \<open>service_name\<close> is as before. The spans are read only: the method returns no
  span, and what it puts into the cell is either the former content, a fresh pending
  future, or the last span of the batch exactly as it was given.
\<close>

theorem export_frame:
  "snd (export self spans) = self\<lparr>top_span := top_span (snd (export self spans))\<rparr>
   \<and> service_name (snd (export self spans)) = service_name self
   \<and> (top_span (snd (export self spans)) = top_span self
        \<or> top_span (snd (export self spans)) = Some Pending
        \<or> top_span (snd (export self spans)) = Some (Finished (last spans)))"
  by (simp add: export_def last_item_def Future_def)

subsection \<open>Export of an empty sequence\<close>

text \<open>
  C8. Called with an empty sequence while the cell is empty or holds a completed future,
  \<^verbatim>\<open>export\<close> raises an index error (from \<^verbatim>\<open>spans[-1]\<close>) instead of returning \<open>SUCCESS\<close>.
\<close>

theorem export_empty_raises:
  "top_span self = None \<or> (\<exists>f. top_span self = Some f \<and> done_future f) \<Longrightarrow>
     fst (export self []) = Inl IndexError"
  by (auto simp: export_def last_item_def)

theorem export_empty_raises_witness:
  "(top_span (exporter_init (Some ''Test'') (None :: unit option) (None :: unit option)
       :: int JsonObjectSpanExporter) = None
    \<or> (\<exists>f. top_span (exporter_init (Some ''Test'') (None :: unit option) (None :: unit option)
       :: int JsonObjectSpanExporter) = Some f \<and> done_future f))
   \<and> fst (export (exporter_init (Some ''Test'') (None :: unit option) (None :: unit option)
       :: int JsonObjectSpanExporter) []) = Inl IndexError"
  using export_empty_raises [of
      "exporter_init (Some ''Test'') (None :: unit option) (None :: unit option)
         :: int JsonObjectSpanExporter"]
  by (simp add: exporter_init_def)

subsection \<open>The stored future is completed\<close>

lemma step_cell_completed:
  "cell_completed e \<Longrightarrow> nonempty_export c \<Longrightarrow> cell_completed (snd (step e c))"
proof (cases c)
  case (Export spans)
  assume "cell_completed e" "nonempty_export c"
  with Export show ?thesis
    by (simp add: export_fresh) (simp add: cell_completed_def)
next
  case (ForceFlush t)
  assume "cell_completed e"
  with ForceFlush show ?thesis
    by (simp add: force_flush_def)
next
  case (AssertSpan func_name span_args)
  assume "cell_completed e"
  with AssertSpan show ?thesis
    by (simp add: case_prod_beta asserting_state)
qed

lemma step_no_timeout:
  "cell_completed e \<Longrightarrow> fst (step e c) \<noteq> Asserted (Inl TimeoutError)"
proof (cases c)
  case (AssertSpan func_name span_args)
  assume cc: "cell_completed e"
  show ?thesis
  proof (cases "top_span e")
    case None
    with AssertSpan show ?thesis
      by (simp add: asserting_span_exporter_def)
  next
    case (Some f)
    with cc obtain s where "f = Finished s"
      by (cases f) (simp_all add: cell_completed_def)
    with Some AssertSpan show ?thesis
      by (simp add: asserting_finished assert_span_args_cases)
  qed
qed (simp_all split: prod.splits)

lemma run_cell_completed:
  "cell_completed e \<Longrightarrow> \<forall>c\<in>set calls. nonempty_export c \<Longrightarrow>
     cell_completed (snd (run e calls))
     \<and> Asserted (Inl TimeoutError) \<notin> set (fst (run e calls))"
proof (induction calls arbitrary: e)
  case Nil
  then show ?case by simp
next
  case (Cons c cs)
  obtain r e' where st: "step e c = (r, e')"
    by (cases "step e c")
  obtain rs e'' where rn: "run e' cs = (rs, e'')"
    by (cases "run e' cs")
  from Cons.prems st have c1: "cell_completed e'"
    using step_cell_completed [of e c] by simp
  from Cons.prems st have r1: "r \<noteq> Asserted (Inl TimeoutError)"
    using step_no_timeout [of e c] by simp
  from Cons.IH [OF c1] Cons.prems rn
  have "cell_completed e'' \<and> Asserted (Inl TimeoutError) \<notin> set rs"
    by simp
  with st rn r1 show ?case
    by auto
qed

text \<open>
  C9, as the code has it. A new exporter has an empty cell, and every sequence of
  \<^verbatim>\<open>export\<close>, \<^verbatim>\<open>force_flush\<close> and assertion-helper calls in which each exported batch is
  non-empty keeps the invariant that the cell is empty or holds a completed future; along
  such a sequence no call of the assertion helper ends with a timeout error.
\<close>

theorem completed_invariant:
  "cell_completed (exporter_init service_name_arg out formatter)
   \<and> (cell_completed e \<longrightarrow> (\<forall>c\<in>set calls. nonempty_export c) \<longrightarrow>
         cell_completed (snd (run e calls))
         \<and> Asserted (Inl TimeoutError) \<notin> set (fst (run e calls)))"
proof (intro conjI impI)
  show "cell_completed (exporter_init service_name_arg out formatter)"
    by (simp add: cell_completed_def exporter_init_def)
  show "cell_completed (snd (run e calls))"
    if "cell_completed e" and "\<forall>c\<in>set calls. nonempty_export c"
    using run_cell_completed [OF that] by simp
  show "Asserted (Inl TimeoutError) \<notin> set (fst (run e calls))"
    if "cell_completed e" and "\<forall>c\<in>set calls. nonempty_export c"
    using run_cell_completed [OF that] by simp
qed

theorem completed_invariant_witness:
  "cell_completed (exporter_init (Some ''Test'') (None :: unit option) (None :: unit option)
      :: int JsonObjectSpanExporter)
   \<and> list_all nonempty_export
        [Export [\<lparr>name = ''do_work'', attributes = [''x'' \<mapsto> (1::int)]\<rparr>],
         AssertSpan ''do_work'' [''x''], ForceFlush 30000,
         Export [\<lparr>name = ''next_work'', attributes = Map.empty\<rparr>]]
   \<and> cell_completed (snd (run
        (exporter_init (Some ''Test'') (None :: unit option) (None :: unit option))
        [Export [\<lparr>name = ''do_work'', attributes = [''x'' \<mapsto> (1::int)]\<rparr>],
         AssertSpan ''do_work'' [''x''], ForceFlush 30000,
         Export [\<lparr>name = ''next_work'', attributes = Map.empty\<rparr>]]))
   \<and> Asserted (Inl TimeoutError) \<notin> set (fst (run
        (exporter_init (Some ''Test'') (None :: unit option) (None :: unit option))
        [Export [\<lparr>name = ''do_work'', attributes = [''x'' \<mapsto> (1::int)]\<rparr>],
         AssertSpan ''do_work'' [''x''], ForceFlush 30000,
         Export [\<lparr>name = ''next_work'', attributes = Map.empty\<rparr>]]))"
proof -
  let ?e = "exporter_init (Some ''Test'') (None :: unit option) (None :: unit option)
              :: int JsonObjectSpanExporter"
  let ?calls = "[Export [\<lparr>name = ''do_work'', attributes = [''x'' \<mapsto> (1::int)]\<rparr>],
                 AssertSpan ''do_work'' [''x''], ForceFlush 30000,
                 Export [\<lparr>name = ''next_work'', attributes = Map.empty\<rparr>]]"
  have ne: "\<forall>c\<in>set ?calls. nonempty_export c"
    by simp
  have ini: "cell_completed ?e"
    using completed_invariant [of "Some ''Test''" "None :: unit option" "None :: unit option"
        ?e ?calls]
    by blast
  have "cell_completed (snd (run ?e ?calls))
        \<and> Asserted (Inl TimeoutError) \<notin> set (fst (run ?e ?calls))"
    using completed_invariant [of "Some ''Test''" "None :: unit option" "None :: unit option"
        ?e ?calls] ini ne
    by blast
  moreover have "list_all nonempty_export ?calls"
    by simp
  ultimately show ?thesis
    using ini by blast
qed

text \<open>
  C9 as stated fails: \<^verbatim>\<open>export\<close> of an empty sequence on a new exporter stores the fresh
  future before \<^verbatim>\<open>spans[-1]\<close> raises, so the cell is left with a future that is not
  completed, and the assertion helper then ends with a timeout error.
\<close>

theorem completed_invariant_counterexample:
  "top_span (snd (export
       (exporter_init (Some ''Test'') (None :: unit option) (None :: unit option)
          :: int JsonObjectSpanExporter) []))
     = Some Pending
   \<and> fst (asserting_span_exporter (snd (export
       (exporter_init (Some ''Test'') (None :: unit option) (None :: unit option)
          :: int JsonObjectSpanExporter) [])) ''do_work'' [])
     = Inl TimeoutError"
  by (simp add: export_def exporter_init_def last_item_def Future_def
        asserting_span_exporter_def)

subsection \<open>The unused constructor parameters\<close>

text \<open>
  C10. The constructor parameters \<^verbatim>\<open>out\<close> and \<^verbatim>\<open>formatter\<close> have no effect: with the
  same \<^verbatim>\<open>service_name\<close>, any two choices of them build the same exporter, and every
  sequence of \<^verbatim>\<open>export\<close>, \<^verbatim>\<open>force_flush\<close> and assertion-helper calls then gives the same
  outcomes and the same final exporter, capture cell included.
\<close>

theorem init_ignores_out_and_formatter:
  "exporter_init service_name_arg out1 formatter1
     = (exporter_init service_name_arg out2 formatter2 :: 'v JsonObjectSpanExporter)
   \<and> run (exporter_init service_name_arg out1 formatter1) calls
     = run (exporter_init service_name_arg out2 formatter2 :: 'v JsonObjectSpanExporter) calls"
  by (simp add: exporter_init_def)

end
